theory Spec2Isabelle
  imports Complex_Main
begin

section \<open>Data model\<close>

text \<open>
  The development follows \<^verbatim>\<open>axelrod/fingerprint.py\<close>.

  Numbers. The coordinates, the step and the scores are Python floats in the source. They
  are idealised here as exact reals: \<open>+\<close>, \<open>-\<close>, \<open>/\<close> and the comparisons are the
  mathematical ones, and rounding is not modelled. Indices and counts are Python's unbounded
  integers; they are never negative where they are naturals here.

  \<^verbatim>\<open>Point = namedtuple('Point', 'x y')\<close> is a pair. A pairing (edge) is a pair of roster
  indices.
\<close>

type_synonym Point = "real \<times> real"

type_synonym edge = "nat \<times> nat"

text \<open>
  The exceptions the modelled code can raise. A \<^verbatim>\<open>KeyError\<close> carries the key that was
  looked up: an edge for the interaction records, a coordinate for the fingerprint data.
\<close>

datatype error =
    KeyError_edge edge
  | KeyError_coordinate Point
  | ValueError
  | TypeError
  | ZeroDivisionError
  | AttributeError
  | EngineError

text \<open>
  Players. The classes \<^verbatim>\<open>self.strategy\<close> and \<^verbatim>\<open>self.probe\<close> are values of an arbitrary
  type \<open>'c\<close>. The transformers of \<^verbatim>\<open>axelrod.strategy_transformers\<close> are not part of the
  code under study; a player object is recorded by how it was constructed:
  \<^item> \<open>Instance s\<close> is \<^verbatim>\<open>s()\<close>;
  \<^item> \<open>DualTransformer s\<close> is \<^verbatim>\<open>DualTransformer()(s)()\<close>;
  \<^item> \<open>JossAnnTransformer (p, q) s\<close> is \<^verbatim>\<open>JossAnnTransformer((p, q))(s)()\<close>.
\<close>

datatype 'c player =
    Instance 'c
  | DualTransformer 'c
  | JossAnnTransformer "real \<times> real" 'c

section \<open>The probe transform\<close>

text \<open>
  \<^verbatim>\<open>
  def create_jossann(coordinate, probe):
      x, y = coordinate
      if x + y > 1:
          joss_ann = JossAnnTransformer((1 - y, 1 - x))(probe)()
      else:
          joss_ann = JossAnnTransformer((x, y))(probe)()
      return joss_ann
  \<close>
\<close>

fun create_jossann :: "Point \<Rightarrow> 'c \<Rightarrow> 'c player" where
  "create_jossann (x, y) probe =
     (if x + y > 1 then JossAnnTransformer (1 - y, 1 - x) probe
      else JossAnnTransformer (x, y) probe)"

text \<open>
  \<^verbatim>\<open>
  def create_probes(probe, coordinates):
      probes = [create_jossann(coordinate, probe) for coordinate in coordinates]
      return probes
  \<close>
\<close>

definition create_probes :: "'c \<Rightarrow> Point list \<Rightarrow> 'c player list" where
  "create_probes probe coordinates =
     map (\<lambda>coordinate. create_jossann coordinate probe) coordinates"

section \<open>The pairing builder\<close>

text \<open>
  Python's builtin \<^verbatim>\<open>sum\<close> on a two-element tuple starts from the integer 0 and adds
  the components from left to right.
\<close>

fun sum_tuple :: "Point \<Rightarrow> real" where
  "sum_tuple (x, y) = 0 + x + y"

text \<open>
  \<^verbatim>\<open>
  def create_edges(coordinates):
      edges = []
      for index, coordinate in enumerate(coordinates):
          if sum(coordinate) > 1:
              edge = (1, index + 2)
          else:
              edge = (0, index + 2)
          edges.append(edge)
      return edges
  \<close>
  The loop is \<open>create_edges_loop\<close>: its arguments are the loop variable \<open>index\<close>, the
  coordinates still to be visited and the list \<open>edges\<close> built so far.
\<close>

fun create_edges_loop :: "nat \<Rightarrow> Point list \<Rightarrow> edge list \<Rightarrow> edge list" where
  "create_edges_loop index [] edges = edges"
| "create_edges_loop index (coordinate # coordinates) edges =
     (let edge = (if sum_tuple coordinate > 1 then (1, index + 2) else (0, index + 2))
      in create_edges_loop (index + 1) coordinates (edges @ [edge]))"

definition create_edges :: "Point list \<Rightarrow> edge list" where
  "create_edges coordinates = create_edges_loop 0 coordinates []"

section \<open>The score reducer\<close>

text \<open>
  A Python \<^verbatim>\<open>dict\<close> keeps its keys in insertion order, and storing under a key that is
  already present replaces the value where the key stands. It is an association list with
  distinct keys: \<open>dict_setitem\<close> is \<^verbatim>\<open>d[k] = v\<close>, \<open>dict\<close> is the constructor
  \<^verbatim>\<open>dict(pairs)\<close>, \<open>dict_keys\<close> is the iteration over the keys, and \<open>dict_getitem\<close> is the
  lookup \<^verbatim>\<open>d[k]\<close>, which is \<open>None\<close> where Python raises \<^verbatim>\<open>KeyError\<close>.
\<close>

type_synonym ('k, 'v) dict = "('k \<times> 'v) list"

fun dict_setitem :: "('k, 'v) dict \<Rightarrow> 'k \<Rightarrow> 'v \<Rightarrow> ('k, 'v) dict" where
  "dict_setitem [] k v = [(k, v)]"
| "dict_setitem ((k', v') # d) k v =
     (if k' = k then (k', v) # d else (k', v') # dict_setitem d k v)"

definition dict :: "('k \<times> 'v) list \<Rightarrow> ('k, 'v) dict" where
  "dict pairs = foldl (\<lambda>d (k, v). dict_setitem d k v) [] pairs"

definition dict_keys :: "('k, 'v) dict \<Rightarrow> 'k list" where
  "dict_keys d = map fst d"

definition dict_getitem :: "('k, 'v) dict \<Rightarrow> 'k \<Rightarrow> 'v option" where
  "dict_getitem d k = map_of d k"

text \<open>
  \<^verbatim>\<open>
  def generate_data(interactions, coordinates, edges):
      edge_scores = [np.mean([compute_final_score_per_turn(scores)
                              for scores in interactions[edge]]) for edge in edges]
      coordinate_scores = dict(zip(coordinates, edge_scores))
      return coordinate_scores
  \<close>
  \<open>interactions\<close> is a dictionary from edges to the list of the interaction records of the
  repetitions; it is only read, so it is a map, and a missing edge raises \<^verbatim>\<open>KeyError\<close>.
  \<^verbatim>\<open>np.mean\<close> (numpy) and \<^verbatim>\<open>compute_final_score_per_turn\<close>
  (\<^verbatim>\<open>axelrod.interaction_utils\<close>) are not part of the code under study: they are the
  parameters \<open>np_mean\<close> and \<open>compute_final_score_per_turn\<close>, of arbitrary types, and are
  taken to return.

  \<open>edge_scores\<close> is the outer list comprehension: it visits the edges in order and stops
  at the first edge that has no records.
\<close>

fun edge_scores ::
  "('r list \<Rightarrow> 's) \<Rightarrow> ('i \<Rightarrow> 'r) \<Rightarrow> (edge \<rightharpoonup> 'i list) \<Rightarrow> edge list \<Rightarrow> error + 's list" where
  "edge_scores np_mean compute_final_score_per_turn interactions [] = Inr []"
| "edge_scores np_mean compute_final_score_per_turn interactions (edge # edges) =
     (case interactions edge of
        None \<Rightarrow> Inl (KeyError_edge edge)
      | Some records \<Rightarrow>
          (case edge_scores np_mean compute_final_score_per_turn interactions edges of
             Inl e \<Rightarrow> Inl e
           | Inr scores \<Rightarrow>
               Inr (np_mean (map compute_final_score_per_turn records) # scores)))"

definition generate_data ::
  "('r list \<Rightarrow> 's) \<Rightarrow> ('i \<Rightarrow> 'r) \<Rightarrow> (edge \<rightharpoonup> 'i list) \<Rightarrow> Point list \<Rightarrow> edge list \<Rightarrow>
     error + (Point, 's) dict" where
  "generate_data np_mean compute_final_score_per_turn interactions coordinates edges =
     (case edge_scores np_mean compute_final_score_per_turn interactions edges of
        Inl e \<Rightarrow> Inl e
      | Inr scores \<Rightarrow> Inr (dict (zip coordinates scores)))"

section \<open>The coordinate grid generator\<close>

text \<open>
  \<^verbatim>\<open>
  def create_coordinates(step):
      coordinates = list(Point(j, k) for j in np.arange(0, 1, step)
                         for k in np.arange(0, 1, step))
      return coordinates
  \<close>
  \<^verbatim>\<open>np.arange\<close> belongs to numpy and is not in the sources: in \<open>create_coordinates\<close> it
  is the parameter \<open>np_arange\<close>, which either raises or returns the list of its values.
  The inner \<^verbatim>\<open>np.arange(0, 1, step)\<close> is evaluated once for every \<open>j\<close>, with the arguments
  of the outer one, so it returns the same list.
\<close>

definition create_coordinates ::
  "(real \<Rightarrow> real \<Rightarrow> real \<Rightarrow> error + real list) \<Rightarrow> real \<Rightarrow> error + Point list" where
  "create_coordinates np_arange step =
     (case np_arange 0 1 step of
        Inl e \<Rightarrow> Inl e
      | Inr js \<Rightarrow> Inr (concat (map (\<lambda>j. map (\<lambda>k. (j, k)) js) js)))"

text \<open>
  Modelled from the spec: \<^verbatim>\<open>np.arange\<close> (numpy), which is not in the sources. By the
  contract of the grid generator its values for \<open>np.arange(0, 1, step)\<close> are those of
  \<open>0, step, 2 * step, ...\<close> that lie below \<open>1\<close>, generated by repeated addition of \<open>step\<close>
  starting at \<open>0\<close>. \<open>arange_loop\<close> is that iteration from \<open>x\<close> up to \<open>stop\<close> (excluded),
  over exact reals: floating-point rounding is not modelled. A step that is not positive
  is outside that contract; as in numpy, a negative step gives no value and the step 0
  raises.
\<close>

function arange_loop :: "real \<Rightarrow> real \<Rightarrow> real \<Rightarrow> real list" where
  "arange_loop x stop step =
     (if 0 < step \<and> x < stop then x # arange_loop (x + step) stop step else [])"
  by pat_completeness auto
termination
proof (relation "measure (\<lambda>(x, stop, step). nat \<lceil>(stop - x) / step\<rceil>)")
  show "wf (measure (\<lambda>(x, stop, step). nat \<lceil>(stop - x) / step\<rceil>))"
    by simp
next
  fix x stop step :: real
  assume a: "0 < step \<and> x < stop"
  then have "(stop - (x + step)) / step = (stop - x) / step - 1"
    by (simp add: field_simps)
  then have "\<lceil>(stop - (x + step)) / step\<rceil> = \<lceil>(stop - x) / step\<rceil> - 1"
    by simp
  moreover from a have "0 < (stop - x) / step"
    by simp
  then have "0 < \<lceil>(stop - x) / step\<rceil>"
    by (simp add: less_ceiling_iff)
  then have "nat (\<lceil>(stop - x) / step\<rceil> - 1) < nat \<lceil>(stop - x) / step\<rceil>"
    by arith
  ultimately show "((x + step, stop, step), (x, stop, step))
      \<in> measure (\<lambda>(x, stop, step). nat \<lceil>(stop - x) / step\<rceil>)"
    by simp
qed

text \<open>
  Modelled from the spec: \<^verbatim>\<open>np.arange(start, stop, step)\<close> over exact reals, by the iteration
  above; the step 0 raises.
\<close>

definition np_arange_exact :: "real \<Rightarrow> real \<Rightarrow> real \<Rightarrow> error + real list" where
  "np_arange_exact start stop step =
     (if step = 0 then Inl ZeroDivisionError else Inr (arange_loop start stop step))"

section \<open>The fingerprint orchestrator\<close>

text \<open>
  The object that \<^verbatim>\<open>axl.SpatialTournament(players, turns=turns, repetitions=repetitions,
  edges=edges)\<close> builds is recorded by its arguments.
\<close>

record 'c SpatialTournament =
  st_players :: "'c player list"
  st_turns :: nat
  st_repetitions :: nat
  st_edges :: "edge list"

text \<open>
  Modelled from the spec: the constructor of \<^verbatim>\<open>SpatialTournament\<close>
  (\<^verbatim>\<open>axelrod/tournament.py\<close>), which is not in the sources. The spec counts an invalid
  pairing among the failures of the tournament engine, which \<open>fingerprint\<close> propagates. The
  constructor compares the roster indices with the indices that the edges name,
  \<^verbatim>\<open>
  player_indices = list(range(len(players)))
  node_indices = sorted(set([node for edge in edges for node in edge]))
  if player_indices != node_indices:
      raise ValueError("The graph edges do not include all players.")
  \<close>
  so it raises when some roster member is in no edge, as the dual is when no coordinate
  sums to more than 1.
\<close>

definition nodes :: "edge list \<Rightarrow> nat list" where
  "nodes edges = concat (map (\<lambda>(source, target). [source, target]) edges)"

definition SpatialTournament_init ::
  "'c player list \<Rightarrow> nat \<Rightarrow> nat \<Rightarrow> edge list \<Rightarrow> error + 'c SpatialTournament" where
  "SpatialTournament_init players turns repetitions edges =
     (let player_indices = [0..<length players];
          node_indices = sort (remdups (nodes edges))
      in if player_indices = node_indices
         then Inr \<lparr>st_players = players, st_turns = turns,
                   st_repetitions = repetitions, st_edges = edges\<rparr>
         else Inl ValueError)"

text \<open>
  The object \<^verbatim>\<open>self\<close> of class \<^verbatim>\<open>AshlockFingerprint\<close>. \<^verbatim>\<open>__init__\<close> sets
  \<^verbatim>\<open>self.strategy\<close> and \<^verbatim>\<open>self.probe\<close>; the other attributes do not exist (\<open>None\<close>) until
  a method assigns them, and reading one that does not exist raises \<^verbatim>\<open>AttributeError\<close>.
\<close>

record ('c, 'i, 's) AshlockFingerprint =
  self_strategy :: 'c
  self_probe :: 'c
  self_coordinates :: "Point list option"
  self_step :: "real option"
  self_spatial_tourn :: "'c SpatialTournament option"
  self_interactions :: "(edge \<rightharpoonup> 'i list) option"
  self_data :: "(Point, 's) dict option"

definition init :: "'c \<Rightarrow> 'c \<Rightarrow> ('c, 'i, 's) AshlockFingerprint" where
  "init strategy probe =
     \<lparr>self_strategy = strategy, self_probe = probe, self_coordinates = None,
      self_step = None, self_spatial_tourn = None, self_interactions = None,
      self_data = None\<rparr>"

text \<open>
  \<^verbatim>\<open>
  def construct_tournament_elements(self, step):
      probe_coordinates = create_coordinates(step)
      self.coordinates = probe_coordinates
      edges = create_edges(probe_coordinates)

      dual = DualTransformer()(self.strategy)()
      probe_players = create_probes(self.probe, probe_coordinates)
      tournament_players = [self.strategy(), dual] + probe_players

      return edges, tournament_players
  \<close>
  The method returns the updated object together with its two results.
\<close>

definition construct_tournament_elements ::
  "(real \<Rightarrow> real \<Rightarrow> real \<Rightarrow> error + real list) \<Rightarrow> ('c, 'i, 's) AshlockFingerprint \<Rightarrow> real \<Rightarrow>
     error + (('c, 'i, 's) AshlockFingerprint \<times> edge list \<times> 'c player list)" where
  "construct_tournament_elements np_arange self step =
     (case create_coordinates np_arange step of
        Inl e \<Rightarrow> Inl e
      | Inr probe_coordinates \<Rightarrow>
          (let self1 = self\<lparr>self_coordinates := Some probe_coordinates\<rparr>;
               edges = create_edges probe_coordinates;
               dual = DualTransformer (self_strategy self1);
               probe_players = create_probes (self_probe self1) probe_coordinates;
               tournament_players = [Instance (self_strategy self1), dual] @ probe_players
           in Inr (self1, edges, tournament_players)))"

text \<open>
  The collaborators of \<open>fingerprint\<close> that are not part of the code under study are
  gathered in a record of parameters:
  \<^item> \<^verbatim>\<open>on_windows\<close>, the flag of the \<^verbatim>\<open>axelrod\<close> package;
  \<^item> the name that \<^verbatim>\<open>NamedTemporaryFile(mode='w')\<close> gives to the file it creates;
  \<^item> \<^verbatim>\<open>np.arange\<close>, \<^verbatim>\<open>np.mean\<close> and \<^verbatim>\<open>compute_final_score_per_turn\<close>, as above;
  \<^item> the tournament engine, \<^verbatim>\<open>self.spatial_tourn.play\<close>: in memory it returns the
    results, of which only \<^verbatim>\<open>results.interactions\<close> is used; with a file name it writes
    there and its result is dropped; either call may raise;
  \<^item> \<^verbatim>\<open>read_interactions_from_file\<close>, which may raise.
\<close>

record ('c, 'i, 'r, 's) host =
  host_on_windows :: bool
  host_temporary_file_name :: string
  host_np_arange :: "real \<Rightarrow> real \<Rightarrow> real \<Rightarrow> error + real list"
  host_np_mean :: "'r list \<Rightarrow> 's"
  host_compute_final_score_per_turn :: "'i \<Rightarrow> 'r"
  host_play_in_memory :: "'c SpatialTournament \<Rightarrow> nat option \<Rightarrow> error + (edge \<rightharpoonup> 'i list)"
  host_play_to_file :: "'c SpatialTournament \<Rightarrow> string \<Rightarrow> nat option \<Rightarrow> error + unit"
  host_read_interactions_from_file :: "string \<Rightarrow> error + (edge \<rightharpoonup> 'i list)"

text \<open>
  What \<open>fingerprint\<close> does to files and to the engine is recorded as a trace of events, in
  the order of the calls. \<open>Close_file\<close> stands for closing or removing a file
  (\<^verbatim>\<open>outputfile.close()\<close>, or leaving a \<^verbatim>\<open>with\<close> block).
\<close>

datatype event =
    Open_file string
  | Create_temporary_file string
  | Play_in_memory
  | Play_to_file string
  | Read_interactions_from_file string
  | Close_file string

text \<open>
  \<^verbatim>\<open>
  in_memory = False
  if on_windows and (filename is None):
      in_memory = True
  elif filename:
      outputfile = open(filename, 'w')
      filename = outputfile.name
  else:
      outputfile = NamedTemporaryFile(mode='w')
      filename = outputfile.name
  \<close>
  \<open>filename\<close> is \<open>None\<close> or a string; the empty string is false in the \<^verbatim>\<open>elif\<close>. After
  these lines either \<^verbatim>\<open>in_memory\<close> is true and no file was set up, or it is false and
  \<^verbatim>\<open>filename\<close> is the name of the file that was opened: \<open>output_target\<close> returns the events
  and \<open>None\<close> in the first case, \<open>Some\<close> of the name in the second. Opening and creating
  the files is taken to succeed.
\<close>

definition output_target ::
  "('c, 'i, 'r, 's) host \<Rightarrow> string option \<Rightarrow> event list \<times> string option" where
  "output_target host filename =
     (let temporary = ([Create_temporary_file (host_temporary_file_name host)],
                       Some (host_temporary_file_name host))
      in if host_on_windows host \<and> filename = None then ([], None)
         else (case filename of
                 None \<Rightarrow> temporary
               | Some name \<Rightarrow> if name = [] then temporary else ([Open_file name], Some name)))"

text \<open>
  \<^verbatim>\<open>
  if in_memory:
      results = self.spatial_tourn.play(build_results=True,
                                        processes=processes,
                                        in_memory=in_memory)
      self.interactions = results.interactions
  else:
      self.spatial_tourn.play(build_results=False,
                              filename=filename,
                              processes=processes,
                              in_memory=in_memory)
      self.interactions = read_interactions_from_file(filename)
  \<close>
  \<open>play_and_read\<close> returns the events of these lines and either the exception raised or the
  interactions to be stored in \<^verbatim>\<open>self.interactions\<close>.
\<close>

definition play_and_read ::
  "('c, 'i, 'r, 's) host \<Rightarrow> 'c SpatialTournament \<Rightarrow> string option \<Rightarrow> nat option \<Rightarrow>
     event list \<times> (error + (edge \<rightharpoonup> 'i list))" where
  "play_and_read host spatial_tourn target processes =
     (case target of
        None \<Rightarrow> ([Play_in_memory], host_play_in_memory host spatial_tourn processes)
      | Some filename \<Rightarrow>
          (case host_play_to_file host spatial_tourn filename processes of
             Inl e \<Rightarrow> ([Play_to_file filename], Inl e)
           | Inr _ \<Rightarrow>
               ([Play_to_file filename, Read_interactions_from_file filename],
                host_read_interactions_from_file host filename)))"

text \<open>
  \<^verbatim>\<open>
  def fingerprint(self, turns=50, repetitions=10, step=0.01, processes=None,
                  filename=None):
      ...
      edges, tourn_players = self.construct_tournament_elements(step)
      self.step = step
      self.spatial_tourn = axl.SpatialTournament(tourn_players,
                                                 turns=turns,
                                                 repetitions=repetitions,
                                                 edges=edges)
      ...
      self.data = generate_data(self.interactions, self.coordinates, edges)
      return self.data
  \<close>
  The source has no \<^verbatim>\<open>try\<close>, \<^verbatim>\<open>with\<close> or \<^verbatim>\<open>close\<close>: an exception of a callee (the
  coordinate generator, the constructor of the tournament, the engine, the reader, the
  reducer) leaves \<open>fingerprint\<close> at once. The model returns the trace of events up to the
  exit, and either the exception or the updated object with the returned data. (The
  attributes assigned before an exception are not reported.)
\<close>

definition fingerprint ::
  "('c, 'i, 'r, 's) host \<Rightarrow> ('c, 'i, 's) AshlockFingerprint \<Rightarrow> nat \<Rightarrow> nat \<Rightarrow> real \<Rightarrow>
     nat option \<Rightarrow> string option \<Rightarrow>
     event list \<times> (error + (('c, 'i, 's) AshlockFingerprint \<times> (Point, 's) dict))" where
  "fingerprint host self turns repetitions step processes filename =
     (case output_target host filename of
        (opened, target) \<Rightarrow>
          (case construct_tournament_elements (host_np_arange host) self step of
             Inl e \<Rightarrow> (opened, Inl e)
           | Inr (self1, edges, tourn_players) \<Rightarrow>
               (let self2 = self1\<lparr>self_step := Some step\<rparr>
                in case SpatialTournament_init tourn_players turns repetitions edges of
                     Inl e \<Rightarrow> (opened, Inl e)
                   | Inr spatial_tourn \<Rightarrow>
                       (let self3 = self2\<lparr>self_spatial_tourn := Some spatial_tourn\<rparr>
                        in case play_and_read host spatial_tourn target processes of
                             (played, Inl e) \<Rightarrow> (opened @ played, Inl e)
                           | (played, Inr interactions) \<Rightarrow>
                               (let self4 = self3\<lparr>self_interactions := Some interactions\<rparr>
                                in case self_coordinates self4 of
                                     None \<Rightarrow> (opened @ played, Inl AttributeError)
                                   | Some coordinates \<Rightarrow>
                                       (case generate_data (host_np_mean host)
                                               (host_compute_final_score_per_turn host)
                                               interactions coordinates edges of
                                          Inl e \<Rightarrow> (opened @ played, Inl e)
                                        | Inr data \<Rightarrow>
                                            (opened @ played,
                                             Inr (self4\<lparr>self_data := Some data\<rparr>,
                                                  data))))))))"

section \<open>The renderer\<close>

text \<open>
  \<^verbatim>\<open>
  def plot(self, col_map='seismic'):
      size = (1 / self.step) // 1
      ordered_data = [self.data[coord] for coord in self.coordinates]
      plotting_data = np.reshape(ordered_data, (size, size))
      figure = plt.figure()
      plt.imshow(plotting_data, cmap=col_map, )
      return figure
  \<close>
  \<open>ordered_data\<close> is the list comprehension: \<^verbatim>\<open>self.data\<close> is read once for every
  coordinate, and a coordinate that is not a key raises \<^verbatim>\<open>KeyError\<close>.
\<close>

fun ordered_data :: "(Point, 's) dict option \<Rightarrow> Point list \<Rightarrow> error + 's list" where
  "ordered_data data [] = Inr []"
| "ordered_data data (coord # coordinates) =
     (case data of
        None \<Rightarrow> Inl AttributeError
      | Some d \<Rightarrow>
          (case dict_getitem d coord of
             None \<Rightarrow> Inl (KeyError_coordinate coord)
           | Some score \<Rightarrow>
               (case ordered_data data coordinates of
                  Inl e \<Rightarrow> Inl e
                | Inr scores \<Rightarrow> Inr (score # scores))))"

text \<open>
  \<^verbatim>\<open>size = (1 / self.step) // 1\<close> is a Python float: the true division gives a float and
  the floor division of a float gives the float whose value is the floor. A dimension
  handed to numpy is therefore tagged with its Python type.
\<close>

datatype dimension = Int_dimension int | Float_dimension real

text \<open>
  Modelled from the spec: \<^verbatim>\<open>np.reshape\<close> (numpy), which is not in the sources, for the
  call \<^verbatim>\<open>np.reshape(a, (size, size))\<close> on a flat list. numpy (from release 1.12 on)
  raises \<^verbatim>\<open>TypeError\<close> for a dimension that is a float, whatever its value, before it
  looks at the list. For an integer dimension, by the contract of the renderer and by
  numpy's, the elements are laid out row by row, and the call raises \<^verbatim>\<open>ValueError\<close>
  unless the list has exactly \<open>size * size\<close> elements; a negative \<open>size\<close> raises too (two
  unknown dimensions for -1, a negative dimension below -1). The source's variable
  \<open>size\<close> is written \<open>size'\<close>.
\<close>

definition np_reshape_square :: "'a list \<Rightarrow> dimension \<Rightarrow> error + 'a list list" where
  "np_reshape_square a size' =
     (case size' of
        Float_dimension x \<Rightarrow> Inl TypeError
      | Int_dimension n \<Rightarrow>
          if n < 0 then Inl ValueError
          else if int (length a) = n * n
          then Inr (map (\<lambda>row. take (nat n) (drop (row * nat n) a)) [0..<nat n])
          else Inl ValueError)"

text \<open>
  The figure is opaque; \<open>plot\<close> returns what it hands to \<^verbatim>\<open>plt.imshow\<close>: the array
  \<^verbatim>\<open>plotting_data\<close> and the colour map.
\<close>

definition plot ::
  "('c, 'i, 's) AshlockFingerprint \<Rightarrow> string \<Rightarrow> error + ('s list list \<times> string)" where
  "plot self col_map =
     (case self_step self of
        None \<Rightarrow> Inl AttributeError
      | Some step \<Rightarrow>
          if step = 0 then Inl ZeroDivisionError
          else
            (let size' = Float_dimension (of_int \<lfloor>1 / step\<rfloor>) in
             case self_coordinates self of
               None \<Rightarrow> Inl AttributeError
             | Some coordinates \<Rightarrow>
                 (case ordered_data (self_data self) coordinates of
                    Inl e \<Rightarrow> Inl e
                  | Inr scores \<Rightarrow>
                      (case np_reshape_square scores size' of
                         Inl e \<Rightarrow> Inl e
                       | Inr plotting_data \<Rightarrow> Inr (plotting_data, col_map)))))"

section \<open>Properties of the probe transform and of the pairing builder\<close>

lemma create_edges_loop_enumerate:
  "create_edges_loop index coordinates edges =
     edges @ map (\<lambda>(i, coordinate). (if sum_tuple coordinate > 1 then 1 else 0, i + 2))
                 (enumerate index coordinates)"
  by (induction coordinates arbitrary: index edges) (simp_all add: Let_def)

lemma create_edges_enumerate:
  "create_edges coordinates =
     map (\<lambda>(i, coordinate). (if sum_tuple coordinate > 1 then 1 else 0, i + 2))
         (enumerate 0 coordinates)"
  by (simp add: create_edges_def create_edges_loop_enumerate)

lemma create_edges_length: "length (create_edges coordinates) = length coordinates"
  by (simp add: create_edges_enumerate)

lemma create_edges_nth:
  "i < length coordinates \<Longrightarrow>
   create_edges coordinates ! i = (if sum_tuple (coordinates ! i) > 1 then 1 else 0, i + 2)"
  by (simp add: create_edges_enumerate nth_enumerate_eq)

text \<open>
  C1. For a coordinate \<open>(x, y)\<close> of the unit square, \<open>create_jossann\<close> builds the probe with
  the parameters \<open>(1 - y, 1 - x)\<close> when \<open>x + y > 1\<close> and with \<open>(x, y)\<close> otherwise, and in
  both cases the two parameters lie between 0 and 1.
\<close>

theorem create_jossann_parameters:
  assumes "0 \<le> x" and "x \<le> 1" and "0 \<le> y" and "y \<le> 1"
  shows "(x + y > 1 \<longrightarrow> create_jossann (x, y) probe = JossAnnTransformer (1 - y, 1 - x) probe) \<and>
         (x + y \<le> 1 \<longrightarrow> create_jossann (x, y) probe = JossAnnTransformer (x, y) probe) \<and>
         (\<exists>p q. create_jossann (x, y) probe = JossAnnTransformer (p, q) probe \<and>
                0 \<le> p \<and> p \<le> 1 \<and> 0 \<le> q \<and> q \<le> 1)"
  using assms by simp

theorem create_jossann_parameters_witness:
  "create_jossann (3 / 4, 1 / 2) (0::nat) = JossAnnTransformer (1 / 2, 1 / 4) 0 \<and>
   create_jossann (1 / 4, 1 / 2) (0::nat) = JossAnnTransformer (1 / 4, 1 / 2) 0 \<and>
   (\<exists>p q. create_jossann (3 / 4, 1 / 2) (0::nat) = JossAnnTransformer (p, q) 0 \<and>
          0 \<le> p \<and> p \<le> 1 \<and> 0 \<le> q \<and> q \<le> 1)"
proof -
  have a: "(0::real) \<le> 3 / 4" "(3 / 4 :: real) \<le> 1" "(0::real) \<le> 1 / 2" "(1 / 2 :: real) \<le> 1"
    "(0::real) \<le> 1 / 4" "(1 / 4 :: real) \<le> 1"
    by simp_all
  have folded: "(3 / 4 :: real) + 1 / 2 > 1" and unfolded: "(1 / 4 :: real) + 1 / 2 \<le> 1"
    by simp_all
  from create_jossann_parameters [OF a(1) a(2) a(3) a(4), of "0::nat"] folded
  have "create_jossann (3 / 4, 1 / 2) (0::nat) = JossAnnTransformer (1 - 1 / 2, 1 - 3 / 4) 0"
    and "\<exists>p q. create_jossann (3 / 4, 1 / 2) (0::nat) = JossAnnTransformer (p, q) 0 \<and>
          0 \<le> p \<and> p \<le> 1 \<and> 0 \<le> q \<and> q \<le> 1"
    by blast+
  moreover from create_jossann_parameters [OF a(5) a(6) a(3) a(4), of "0::nat"] unfolded
  have "create_jossann (1 / 4, 1 / 2) (0::nat) = JossAnnTransformer (1 / 4, 1 / 2) 0"
    by blast
  ultimately show ?thesis by simp
qed

text \<open>
  C2. \<open>create_edges\<close> returns as many edges as there are coordinates, in the order of the
  coordinates: the edge at position \<open>i\<close> is \<open>(source, i + 2)\<close>, where the source is 1 when
  the components of coordinate \<open>i\<close> sum to strictly more than 1 and 0 otherwise. A coordinate
  whose components sum to exactly 1, such as \<open>(1/2, 1/2)\<close>, gets the source 0.
\<close>

theorem create_edges_sources_and_targets:
  "length (create_edges coordinates) = length coordinates \<and>
   (\<forall>i < length coordinates.
      create_edges coordinates ! i =
        (if fst (coordinates ! i) + snd (coordinates ! i) > 1 then 1 else 0, i + 2)) \<and>
   (\<forall>i < length coordinates.
      fst (coordinates ! i) + snd (coordinates ! i) = 1 \<longrightarrow>
        create_edges coordinates ! i = (0, i + 2)) \<and>
   (\<forall>i < length coordinates.
      coordinates ! i = (1 / 2, 1 / 2) \<longrightarrow> create_edges coordinates ! i = (0, i + 2))"
proof -
  have sum: "sum_tuple c = fst c + snd c" for c
    by (cases c) simp
  have nth: "create_edges coordinates ! i =
      (if fst (coordinates ! i) + snd (coordinates ! i) > 1 then 1 else 0, i + 2)"
    if "i < length coordinates" for i
    using create_edges_nth [OF that] by (simp add: sum)
  show ?thesis
    by (simp add: create_edges_length nth)
qed

theorem create_edges_sources_and_targets_witness:
  "length (create_edges [(0, 0), (0, 1 / 2), (1 / 2, 0), (1 / 2, 1 / 2), (3 / 4, 1 / 2)]) = 5 \<and>
   create_edges [(0, 0), (0, 1 / 2), (1 / 2, 0), (1 / 2, 1 / 2), (3 / 4, 1 / 2)] ! 0 = (0, 2) \<and>
   create_edges [(0, 0), (0, 1 / 2), (1 / 2, 0), (1 / 2, 1 / 2), (3 / 4, 1 / 2)] ! 3 = (0, 5) \<and>
   create_edges [(0, 0), (0, 1 / 2), (1 / 2, 0), (1 / 2, 1 / 2), (3 / 4, 1 / 2)] ! 4 = (1, 6)"
proof -
  let ?cs = "[(0, 0), (0, 1 / 2), (1 / 2, 0), (1 / 2, 1 / 2), (3 / 4, 1 / 2)] :: Point list"
  note t = create_edges_sources_and_targets [of ?cs]
  from t have len: "length (create_edges ?cs) = 5"
    by simp
  from t have n: "create_edges ?cs ! i =
      (if fst (?cs ! i) + snd (?cs ! i) > 1 then 1 else 0, i + 2)" if "i < 5" for i
    using that by simp
  have "create_edges ?cs ! 0 = (0, 2)"
    using n [of 0] by simp
  moreover have "create_edges ?cs ! 3 = (0, 5)"
    using n [of 3] by simp
  moreover have "create_edges ?cs ! 4 = (1, 6)"
    using n [of 4] by simp
  ultimately show ?thesis
    using len by simp
qed

text \<open>
  C7. The canonicalisation inside \<open>create_jossann\<close> is idempotent. Whatever the coordinate
  \<open>(x, y)\<close>, the probe is built with some parameters \<open>(p, q)\<close>; these sum to at most 1, and
  \<open>create_jossann\<close> applied to \<open>(p, q)\<close> builds the probe with the parameters \<open>(p, q)\<close> again.
  This holds on the whole plane, hence on the unit square.
\<close>

theorem create_jossann_idempotent:
  "(\<exists>p q. create_jossann (x, y) probe = JossAnnTransformer (p, q) probe) \<and>
   (\<forall>p q. create_jossann (x, y) probe = JossAnnTransformer (p, q) probe \<longrightarrow>
      p + q \<le> 1 \<and> create_jossann (p, q) probe = JossAnnTransformer (p, q) probe)"
  by auto

theorem create_jossann_idempotent_witness:
  "create_jossann (3 / 4, 1 / 2) (0::nat) = JossAnnTransformer (1 / 2, 1 / 4) 0 \<and>
   (1 / 2 :: real) + 1 / 4 \<le> 1 \<and>
   create_jossann (1 / 2, 1 / 4) (0::nat) = JossAnnTransformer (1 / 2, 1 / 4) 0"
proof -
  have first: "create_jossann (3 / 4, 1 / 2) (0::nat) = JossAnnTransformer (1 / 2, 1 / 4) 0"
    by simp
  from create_jossann_idempotent [of "3 / 4" "1 / 2" "0::nat"] first
  have "(1 / 2 :: real) + 1 / 4 \<le> 1 \<and>
        create_jossann (1 / 2, 1 / 4) (0::nat) = JossAnnTransformer (1 / 2, 1 / 4) 0"
    by blast
  with first show ?thesis by blast
qed

text \<open>
  C10. The test that folds the parameters in \<open>create_jossann\<close> (\<open>x + y > 1\<close>) and the test
  that selects the dual as the source in \<open>create_edges\<close> (\<open>sum(coordinate) > 1\<close>) are the same
  predicate. So, for the coordinate \<open>(x, y)\<close> at position \<open>i\<close>, the source of edge \<open>i\<close> is 1
  exactly when the fold branch is taken, and then the probe has the parameters
  \<open>(1 - y, 1 - x)\<close>; the source is 0 exactly when the probe has the unfolded parameters
  \<open>(x, y)\<close>.
\<close>

theorem fold_test_is_dual_test:
  assumes "i < length coordinates" and "coordinates ! i = (x, y)"
  shows "(sum_tuple (x, y) > 1) = (x + y > 1) \<and>
         (fst (create_edges coordinates ! i) = 1) = (x + y > 1) \<and>
         (fst (create_edges coordinates ! i) = 0) = (\<not> x + y > 1) \<and>
         (fst (create_edges coordinates ! i) = 1 \<longrightarrow>
            create_jossann (coordinates ! i) probe = JossAnnTransformer (1 - y, 1 - x) probe) \<and>
         (fst (create_edges coordinates ! i) = 0) =
            (create_jossann (coordinates ! i) probe = JossAnnTransformer (x, y) probe)"
  using assms by (auto simp add: create_edges_nth)

theorem fold_test_is_dual_test_witness:
  "fst (create_edges [(1 / 4, 1 / 2), (3 / 4, 1 / 2)] ! 1) = 1 \<and>
   create_jossann ([(1 / 4, 1 / 2), (3 / 4, 1 / 2)] ! 1) (0::nat) =
     JossAnnTransformer (1 / 2, 1 / 4) 0 \<and>
   fst (create_edges [(1 / 4, 1 / 2), (3 / 4, 1 / 2)] ! 0) = 0 \<and>
   create_jossann ([(1 / 4, 1 / 2), (3 / 4, 1 / 2)] ! 0) (0::nat) =
     JossAnnTransformer (1 / 4, 1 / 2) 0"
proof -
  let ?cs = "[(1 / 4, 1 / 2), (3 / 4, 1 / 2)] :: Point list"
  have i1: "1 < length ?cs" and c1: "?cs ! 1 = (3 / 4, 1 / 2)"
    and i0: "0 < length ?cs" and c0: "?cs ! 0 = (1 / 4, 1 / 2)"
    by simp_all
  have "fst (create_edges ?cs ! 1) = 1 \<and>
        create_jossann (?cs ! 1) (0::nat) = JossAnnTransformer (1 / 2, 1 / 4) 0"
    using fold_test_is_dual_test [OF i1 c1, of "0::nat"] by simp
  moreover have "fst (create_edges ?cs ! 0) = 0 \<and>
        create_jossann (?cs ! 0) (0::nat) = JossAnnTransformer (1 / 4, 1 / 2) 0"
    using fold_test_is_dual_test [OF i0 c0, of "0::nat"] by simp
  ultimately show ?thesis by blast
qed

section \<open>Properties of the coordinate grid generator\<close>

lemma arange_loop_closed:
  "0 < step \<Longrightarrow>
   arange_loop x stop step = map (\<lambda>i. x + real i * step) [0..<nat \<lceil>(stop - x) / step\<rceil>]"
proof (induction x stop step rule: arange_loop.induct)
  case (1 x stop step)
  show ?case
  proof (cases "x < stop")
    case False
    with "1.prems" have "(stop - x) / step \<le> 0"
      by (simp add: divide_nonpos_pos)
    then have "\<lceil>(stop - x) / step\<rceil> \<le> 0"
      by (simp add: ceiling_le_iff)
    with False show ?thesis
      by (subst arange_loop.simps) simp
  next
    case True
    let ?n = "nat \<lceil>(stop - x) / step\<rceil>"
    from True "1.prems" have "(stop - (x + step)) / step = (stop - x) / step - 1"
      by (simp add: field_simps)
    then have c: "\<lceil>(stop - (x + step)) / step\<rceil> = \<lceil>(stop - x) / step\<rceil> - 1"
      by simp
    from True "1.prems" have "0 < (stop - x) / step"
      by simp
    then have "0 < \<lceil>(stop - x) / step\<rceil>"
      by (simp add: less_ceiling_iff)
    then have "nat \<lceil>(stop - x) / step\<rceil> = Suc (nat (\<lceil>(stop - x) / step\<rceil> - 1))"
      by arith
    with c have n: "?n = Suc (nat \<lceil>(stop - (x + step)) / step\<rceil>)"
      by (simp only:)
    from True "1.prems" have ih: "arange_loop (x + step) stop step =
        map (\<lambda>i. x + step + real i * step) [0..<nat \<lceil>(stop - (x + step)) / step\<rceil>]"
      by (intro "1.IH") simp_all
    have "arange_loop x stop step = x # arange_loop (x + step) stop step"
      using True "1.prems" by (subst arange_loop.simps) simp
    also have "\<dots> = x # map (\<lambda>i. x + step + real i * step)
        [0..<nat \<lceil>(stop - (x + step)) / step\<rceil>]"
      by (simp only: ih)
    also have "\<dots> = map (\<lambda>i. x + real i * step) [0..<Suc (nat \<lceil>(stop - (x + step)) / step\<rceil>)]"
      by (simp add: upt_conv_Cons map_Suc_upt [symmetric] algebra_simps del: upt_Suc)
    finally show ?thesis
      by (simp only: n)
  qed
qed

lemma arange_unit:
  assumes "0 < step"
  shows "np_arange_exact 0 1 step = Inr (map (\<lambda>i. real i * step) [0..<nat \<lceil>1 / step\<rceil>])"
  using assms arange_loop_closed [OF assms, of 0 1] by (simp add: np_arange_exact_def)

lemma below_ceiling:
  assumes "0 < step" and "i < nat \<lceil>1 / step\<rceil>"
  shows "real i * step < 1"
proof -
  from assms(2) have "int i < \<lceil>1 / step\<rceil>"
    by simp
  then have "real i < 1 / step"
    by (simp add: less_ceiling_iff)
  with assms(1) show ?thesis
    by (simp add: pos_less_divide_eq)
qed

text \<open>
  C3. With the exact \<open>np_arange_exact\<close> for \<^verbatim>\<open>np.arange\<close>, and for every positive step (so
  for every step of \<open>(0, 1]\<close>), \<open>create_coordinates\<close> returns exactly \<open>\<lceil>1 / step\<rceil>\<^sup>2\<close>
  coordinates, each with both components in \<open>[0, 1)\<close>, in row-major order: the outer
  loop runs over the first component and the inner loop over the second, and the values
  of each are \<open>0, step, 2 * step, ...\<close>, as the repeated addition of \<open>step\<close> from 0 gives
  them.
\<close>

theorem create_coordinates_grid:
  assumes "0 < step"
  shows "\<exists>coordinates.
           create_coordinates np_arange_exact step = Inr coordinates \<and>
           length coordinates = nat \<lceil>1 / step\<rceil> * nat \<lceil>1 / step\<rceil> \<and>
           (\<forall>c \<in> set coordinates. 0 \<le> fst c \<and> fst c < 1 \<and> 0 \<le> snd c \<and> snd c < 1) \<and>
           coordinates =
             concat (map (\<lambda>i. map (\<lambda>j. (real i * step, real j * step)) [0..<nat \<lceil>1 / step\<rceil>])
                         [0..<nat \<lceil>1 / step\<rceil>])"
proof -
  let ?n = "nat \<lceil>1 / step\<rceil>"
  let ?grid = "concat (map (\<lambda>i. map (\<lambda>j. (real i * step, real j * step)) [0..<?n]) [0..<?n])"
  have r: "create_coordinates np_arange_exact step = Inr ?grid"
    by (simp add: create_coordinates_def arange_unit [OF assms] comp_def)
  have l: "length ?grid = ?n * ?n"
    by (simp add: length_concat comp_def sum_list_triv)
  have b: "\<forall>c \<in> set ?grid. 0 \<le> fst c \<and> fst c < 1 \<and> 0 \<le> snd c \<and> snd c < 1"
  proof
    fix c
    assume "c \<in> set ?grid"
    then obtain i j where "i < ?n" and "j < ?n" and c: "c = (real i * step, real j * step)"
      by auto
    with assms have "real i * step < 1" and "real j * step < 1"
      by (simp_all add: below_ceiling)
    moreover from assms have "0 \<le> real i * step" and "0 \<le> real j * step"
      by simp_all
    ultimately show "0 \<le> fst c \<and> fst c < 1 \<and> 0 \<le> snd c \<and> snd c < 1"
      by (simp add: c)
  qed
  from r l b show ?thesis
    by blast
qed

theorem create_coordinates_grid_witness:
  "create_coordinates np_arange_exact (1 / 2) =
     Inr [(0, 0), (0, 1 / 2), (1 / 2, 0), (1 / 2, 1 / 2)] \<and>
   length [(0, 0), (0, 1 / 2), (1 / 2, 0), (1 / 2, 1 / 2) :: Point] = 2 * 2"
proof -
  have h: "(0::real) < 1 / 2"
    by simp
  have n: "nat \<lceil>1 / (1 / 2 :: real)\<rceil> = Suc (Suc 0)"
    by simp
  from create_coordinates_grid [OF h]
  obtain coordinates where r: "create_coordinates np_arange_exact (1 / 2) = Inr coordinates"
    and c: "coordinates =
      concat (map (\<lambda>i. map (\<lambda>j. (real i * (1 / 2), real j * (1 / 2)))
                [0..<nat \<lceil>1 / (1 / 2 :: real)\<rceil>]) [0..<nat \<lceil>1 / (1 / 2 :: real)\<rceil>])"
    by blast
  from c have "coordinates = [(0, 0), (0, 1 / 2), (1 / 2, 0), (1 / 2, 1 / 2)]"
    unfolding n by simp
  with r show ?thesis
    by simp
qed

section \<open>Properties of the score reducer\<close>

lemma dict_setitem_fresh:
  "k \<notin> fst ` set d \<Longrightarrow> dict_setitem d k v = d @ [(k, v)]"
  by (induction d) auto

lemma dict_foldl_distinct:
  "distinct (map fst (d @ pairs)) \<Longrightarrow>
   foldl (\<lambda>d (k, v). dict_setitem d k v) d pairs = d @ pairs"
proof (induction pairs arbitrary: d)
  case Nil
  then show ?case by simp
next
  case (Cons kv pairs)
  obtain k v where kv: "kv = (k, v)" by (cases kv)
  from Cons.prems kv have fresh: "k \<notin> fst ` set d" by auto
  from Cons.prems kv have "distinct (map fst ((d @ [(k, v)]) @ pairs))" by simp
  from Cons.IH [OF this] show ?case
    by (simp add: kv dict_setitem_fresh [OF fresh])
qed

lemma dict_distinct: "distinct (map fst pairs) \<Longrightarrow> dict pairs = pairs"
  using dict_foldl_distinct [of "[]" pairs] by (simp add: dict_def)

lemma edge_scores_present:
  "list_all (\<lambda>e. interactions e \<noteq> None) edges \<Longrightarrow>
   edge_scores m c interactions edges =
     Inr (map (\<lambda>e. m (map c (the (interactions e)))) edges)"
  by (induction edges) auto

lemma edge_scores_missing:
  "edge \<in> set edges \<Longrightarrow> interactions edge = None \<Longrightarrow>
   \<exists>missing \<in> set edges. interactions missing = None \<and>
      edge_scores m c interactions edges = Inl (KeyError_edge missing)"
  by (induction edges) (auto split: option.splits sum.splits)

lemma map_of_zip_nth_le:
  "distinct xs \<Longrightarrow> length xs \<le> length ys \<Longrightarrow> i < length xs \<Longrightarrow>
   map_of (zip xs ys) (xs ! i) = Some (ys ! i)"
proof (induction xs arbitrary: ys i)
  case Nil
  then show ?case by simp
next
  case (Cons x xs)
  from Cons.prems obtain y ys' where ys: "ys = y # ys'"
    by (cases ys) auto
  show ?case
  proof (cases i)
    case 0
    then show ?thesis by (simp add: ys)
  next
    case (Suc j)
    with Cons.prems ys have j: "j < length xs" and d: "distinct xs" and l: "length xs \<le> length ys'"
      and "x \<notin> set xs"
      by auto
    then have "xs ! j \<noteq> x" by (metis nth_mem)
    with Cons.IH [OF d l j] Suc show ?thesis by (simp add: ys)
  qed
qed

text \<open>
  C4. For distinct coordinates, at least as many edges as coordinates, and interactions that
  hold records for every edge, \<open>generate_data\<close> returns a dictionary with one entry per
  coordinate, whose keys in iteration order are the coordinates in their order, and the
  score stored for coordinate \<open>i\<close> is \<open>np_mean\<close> of the final scores per turn of the
  records of edge \<open>i\<close>.
\<close>

theorem generate_data_scores:
  assumes "distinct coordinates" and "length coordinates \<le> length edges"
    and "\<forall>edge \<in> set edges. interactions edge \<noteq> None"
  shows "\<exists>d. generate_data np_mean compute_final_score_per_turn interactions coordinates edges = Inr d \<and>
           length d = length coordinates \<and>
           dict_keys d = coordinates \<and>
           (\<forall>i < length coordinates. \<forall>records. interactions (edges ! i) = Some records \<longrightarrow>
              dict_getitem d (coordinates ! i) =
                Some (np_mean (map compute_final_score_per_turn records)))"
proof -
  let ?score = "\<lambda>e. np_mean (map compute_final_score_per_turn (the (interactions e)))"
  let ?d = "zip coordinates (map ?score edges)"
  from assms(3) have "list_all (\<lambda>e. interactions e \<noteq> None) edges"
    by (simp add: list_all_iff)
  then have scores: "edge_scores np_mean compute_final_score_per_turn interactions edges =
      Inr (map ?score edges)"
    by (rule edge_scores_present)
  from assms(2) have keys: "map fst ?d = coordinates"
    by (simp add: map_fst_zip_take)
  with assms(1) have "dict ?d = ?d"
    by (simp add: dict_distinct)
  with scores have result:
    "generate_data np_mean compute_final_score_per_turn interactions coordinates edges = Inr ?d"
    by (simp add: generate_data_def)
  have len: "length ?d = length coordinates"
    using assms(2) by simp
  have get: "dict_getitem ?d (coordinates ! i) =
      Some (np_mean (map compute_final_score_per_turn records))"
    if "i < length coordinates" and "interactions (edges ! i) = Some records" for i records
  proof -
    from that(1) assms(2) have "i < length edges" by simp
    moreover have "map_of ?d (coordinates ! i) = Some (map ?score edges ! i)"
      using assms(1,2) that(1) by (intro map_of_zip_nth_le) simp_all
    ultimately show ?thesis
      using that(2) by (simp add: dict_getitem_def)
  qed
  from result len keys get show ?thesis
    by (simp add: dict_keys_def)
qed

theorem generate_data_scores_witness:
  "\<exists>d. generate_data (\<lambda>xs. sum_list xs / real (length xs)) (\<lambda>r. r)
          [(0, 2) \<mapsto> [1::real, 3], (0, 3) \<mapsto> [5]] [(0, 0), (0, 1 / 2)] [(0, 2), (0, 3)] = Inr d \<and>
        length d = 2 \<and>
        dict_keys d = [(0, 0), (0, 1 / 2)] \<and>
        dict_getitem d (0, 0) = Some 2 \<and>
        dict_getitem d (0, 1 / 2) = Some 5"
proof -
  let ?m = "\<lambda>xs::real list. sum_list xs / real (length xs)"
  let ?c = "\<lambda>r::real. r"
  let ?int = "[(0, 2) \<mapsto> [1::real, 3], (0, 3) \<mapsto> [5]] :: edge \<rightharpoonup> real list"
  let ?cs = "[(0, 0), (0, 1 / 2)] :: Point list"
  let ?es = "[(0, 2), (0, 3)] :: edge list"
  have d: "distinct ?cs" and l: "length ?cs \<le> length ?es"
    and p: "\<forall>edge \<in> set ?es. ?int edge \<noteq> None"
    by simp_all
  from generate_data_scores [OF d l p, of ?m ?c]
  obtain dd where r: "generate_data ?m ?c ?int ?cs ?es = Inr dd"
    and len: "length dd = length ?cs" and k: "dict_keys dd = ?cs"
    and g: "\<And>i records. i < length ?cs \<Longrightarrow> ?int (?es ! i) = Some records \<Longrightarrow>
              dict_getitem dd (?cs ! i) = Some (?m (map ?c records))"
    by blast
  have "dict_getitem dd (?cs ! 0) = Some (?m (map ?c [1, 3]))"
    by (rule g) simp_all
  then have g0: "dict_getitem dd (0, 0) = Some 2" by simp
  have "dict_getitem dd (?cs ! 1) = Some (?m (map ?c [5]))"
    by (rule g) simp_all
  then have g1: "dict_getitem dd (0, 1 / 2) = Some 5" by simp
  from r len k g0 g1 show ?thesis by simp
qed

text \<open>
  Without these two conditions the statement fails. When a coordinate occurs twice the
  dictionary has one key for both occurrences, with the score of the later edge; when
  there are fewer edges than coordinates, \<^verbatim>\<open>zip\<close> drops the coordinates that have no
  edge. In both runs below every edge has its records.
\<close>

theorem generate_data_counterexample:
  "generate_data (\<lambda>xs. sum_list xs / real (length xs)) (\<lambda>r. r)
     [(0, 2) \<mapsto> [1::real], (0, 3) \<mapsto> [3]] [(0, 0), (0, 0)] [(0, 2), (0, 3)] = Inr [((0, 0), 3)] \<and>
   dict_keys [((0, 0), 3::real)] \<noteq> [(0, 0), (0, 0) :: Point] \<and>
   generate_data (\<lambda>xs. sum_list xs / real (length xs)) (\<lambda>r. r)
     [(0, 2) \<mapsto> [1::real]] [(0, 0), (0, 1 / 2)] [(0, 2)] = Inr [((0, 0), 1)] \<and>
   dict_keys [((0, 0), 1::real)] \<noteq> [(0, 0), (0, 1 / 2) :: Point]"
  by (simp add: generate_data_def dict_def dict_keys_def)

text \<open>
  C6. When the interactions have no records for some edge of the edge list,
  \<open>generate_data\<close> raises \<^verbatim>\<open>KeyError\<close> for an edge without records, whatever the
  coordinates: no dictionary is returned, so no coordinate gets a default score or is
  left out silently.
\<close>

theorem generate_data_missing_records:
  assumes "edge \<in> set edges" and "interactions edge = None"
  shows "\<exists>missing. missing \<in> set edges \<and> interactions missing = None \<and>
           generate_data np_mean compute_final_score_per_turn interactions coordinates edges =
             Inl (KeyError_edge missing)"
proof -
  from edge_scores_missing [where edge = edge and edges = edges and interactions = interactions
      and m = np_mean and c = compute_final_score_per_turn] assms
  obtain missing where "missing \<in> set edges" and "interactions missing = None"
    and "edge_scores np_mean compute_final_score_per_turn interactions edges =
           Inl (KeyError_edge missing)"
    by blast
  then have "missing \<in> set edges \<and> interactions missing = None \<and>
      generate_data np_mean compute_final_score_per_turn interactions coordinates edges =
        Inl (KeyError_edge missing)"
    by (simp add: generate_data_def)
  then show ?thesis ..
qed

theorem generate_data_missing_records_witness:
  "generate_data (\<lambda>xs. sum_list xs / real (length xs)) (\<lambda>r. r)
     [(0, 2) \<mapsto> [1::real]] [(0, 0), (0, 1 / 2)] [(0, 2), (0, 3)] = Inl (KeyError_edge (0, 3))"
proof -
  let ?m = "\<lambda>xs::real list. sum_list xs / real (length xs)"
  let ?c = "\<lambda>r::real. r"
  let ?int = "[(0, 2) \<mapsto> [1::real]] :: edge \<rightharpoonup> real list"
  let ?cs = "[(0, 0), (0, 1 / 2)] :: Point list"
  let ?es = "[(0, 2), (0, 3)] :: edge list"
  have m: "(0, 3) \<in> set ?es" and n: "?int (0, 3) = None"
    by simp_all
  from generate_data_missing_records [where edge = "(0, 3)" and edges = ?es
      and interactions = ?int and np_mean = ?m and compute_final_score_per_turn = ?c
      and coordinates = ?cs] m n
  obtain missing where "missing \<in> set ?es" and "?int missing = None"
    and r: "generate_data ?m ?c ?int ?cs ?es = Inl (KeyError_edge missing)"
    by blast
  then have "missing = (0, 3)"
    by (auto split: if_splits)
  with r show ?thesis by simp
qed

section \<open>Properties of the renderer\<close>

lemma ordered_data_present:
  "list_all (\<lambda>coord. dict_getitem d coord \<noteq> None) coordinates \<Longrightarrow>
   \<exists>scores. ordered_data (Some d) coordinates = Inr scores \<and>
     map Some scores = map (dict_getitem d) coordinates"
proof (induction coordinates)
  case Nil
  then show ?case by simp
next
  case (Cons coord coordinates)
  then obtain score where s: "dict_getitem d coord = Some score"
    by auto
  from Cons obtain scores where "ordered_data (Some d) coordinates = Inr scores"
    and "map Some scores = map (dict_getitem d) coordinates"
    by auto
  with s have "ordered_data (Some d) (coord # coordinates) = Inr (score # scores) \<and>
      map Some (score # scores) = map (dict_getitem d) (coord # coordinates)"
    by simp
  then show ?case by blast
qed

text \<open>
  What \<^verbatim>\<open>np.reshape\<close> does with an integer side: a list of \<open>side * side\<close> elements becomes
  \<open>side\<close> rows of \<open>side\<close> elements, which read one after the other are the list.
\<close>

lemma concat_rows_take:
  "m * n \<le> length a \<Longrightarrow>
   concat (map (\<lambda>row. take n (drop (row * n) a)) [0..<m]) = take (m * n) a"
proof (induction m)
  case 0
  then show ?case by simp
next
  case (Suc m)
  then have "m * n \<le> length a" by simp
  with Suc.IH have "concat (map (\<lambda>row. take n (drop (row * n) a)) [0..<m]) = take (m * n) a"
    by simp
  then have "concat (map (\<lambda>row. take n (drop (row * n) a)) [0..<Suc m]) =
      take (m * n) a @ take n (drop (m * n) a)"
    by simp
  also have "\<dots> = take (m * n + n) a"
    by (rule take_add [symmetric])
  also have "m * n + n = Suc m * n"
    by simp
  finally show ?case .
qed

lemma rows_square:
  fixes a :: "'a list" and k :: nat
  assumes len: "length a = k * k"
  shows "length (map (\<lambda>row. take k (drop (row * k) a)) [0..<k]) = k"
    and "\<forall>r \<in> set (map (\<lambda>row. take k (drop (row * k) a)) [0..<k]). length r = k"
    and "concat (map (\<lambda>row. take k (drop (row * k) a)) [0..<k]) = a"
proof -
  show "length (map (\<lambda>row. take k (drop (row * k) a)) [0..<k]) = k"
    by simp
  have rowlen: "length (take k (drop (i * k) a)) = k" if "i < k" for i
  proof -
    from that have "Suc i \<le> k" by simp
    then have "Suc i * k \<le> k * k" by (rule mult_le_mono1)
    then have "k + i * k \<le> length a" by (simp add: len)
    then have "k \<le> length a - i * k" by arith
    then show ?thesis by simp
  qed
  show "\<forall>r \<in> set (map (\<lambda>row. take k (drop (row * k) a)) [0..<k]). length r = k"
  proof
    fix r
    assume "r \<in> set (map (\<lambda>row. take k (drop (row * k) a)) [0..<k])"
    then obtain i where i: "i < k" and r: "r = take k (drop (i * k) a)"
      by auto
    from i have "length (take k (drop (i * k) a)) = k"
      by (rule rowlen)
    with r show "length r = k"
      by (simp only:)
  qed
  have "concat (map (\<lambda>row. take k (drop (row * k) a)) [0..<k]) = take (k * k) a"
    by (rule concat_rows_take) (simp add: len)
  also have "\<dots> = a"
    by (simp add: len)
  finally show "concat (map (\<lambda>row. take k (drop (row * k) a)) [0..<k]) = a" .
qed

lemma np_reshape_square_int:
  assumes "0 \<le> side" and "int (length a) = side * side"
  shows "\<exists>grid. np_reshape_square a (Int_dimension side) = Inr grid \<and>
           length grid = nat side \<and>
           (\<forall>row \<in> set grid. length row = nat side) \<and> concat grid = a"
proof -
  from assms(1) obtain k where k: "side = int k"
    using zero_le_imp_eq_int by blast
  with assms(2) have "int (length a) = int (k * k)"
    by simp
  then have len: "length a = k * k"
    by (simp only: of_nat_eq_iff)
  have r: "np_reshape_square a (Int_dimension (int k)) =
      Inr (map (\<lambda>row. take k (drop (row * k) a)) [0..<k])"
    by (simp add: np_reshape_square_def len)
  from rows_square [OF len] r have
    "np_reshape_square a (Int_dimension (int k)) =
       Inr (map (\<lambda>row. take k (drop (row * k) a)) [0..<k]) \<and>
     length (map (\<lambda>row. take k (drop (row * k) a)) [0..<k]) = nat (int k) \<and>
     (\<forall>r \<in> set (map (\<lambda>row. take k (drop (row * k) a)) [0..<k]). length r = nat (int k)) \<and>
     concat (map (\<lambda>row. take k (drop (row * k) a)) [0..<k]) = a"
    by (simp only: nat_int simp_thms)
  then show ?thesis
    unfolding k by (rule exI)
qed

text \<open>
  What \<open>plot\<close> does: the side it hands to \<^verbatim>\<open>np.reshape\<close> is a float, so the call raises
  \<^verbatim>\<open>TypeError\<close> whenever it is reached, and \<open>plot\<close> returns on no object.
\<close>

lemma plot_never_returns: "\<exists>e. plot self col_map = Inl e"
  by (simp add: plot_def np_reshape_square_def Let_def split: option.split sum.split)

lemma plot_raises_TypeError:
  assumes "self_step self = Some step" and "step \<noteq> 0"
    and "self_coordinates self = Some coordinates" and "self_data self = Some data"
    and "list_all (\<lambda>coord. dict_getitem data coord \<noteq> None) coordinates"
  shows "plot self col_map = Inl TypeError"
proof -
  from ordered_data_present [OF assms(5)]
  obtain scores where "ordered_data (Some data) coordinates = Inr scores"
    by blast
  with assms(1-4) show ?thesis
    by (simp add: plot_def np_reshape_square_def)
qed

text \<open>
  C5. The renderer is to reshape the scores, in the order of the coordinates, into a
  square grid of side \<open>\<lfloor>1 / step\<rfloor>\<close>, two rows of two for the step 1/2. The code does not:
  on the object with the step 1/2, its four coordinates and a score for each of them,
  and on the object with the step 1/4, its sixteen coordinates and a score for each,
  \<open>plot\<close> raises \<^verbatim>\<open>TypeError\<close>, because the side it hands to \<^verbatim>\<open>np.reshape\<close> is the float
  \<^verbatim>\<open>(1 / self.step) // 1\<close>. No grid reaches \<^verbatim>\<open>plt.imshow\<close>.
\<close>

theorem plot_float_size_raises:
  "plot ((init (0::nat) 1 :: (nat, real, real) AshlockFingerprint)
          \<lparr>self_coordinates := Some [(0, 0), (0, 1 / 2), (1 / 2, 0), (1 / 2, 1 / 2)],
           self_step := Some (1 / 2),
           self_data := Some [((0, 0), 1), ((0, 1 / 2), 2), ((1 / 2, 0), 3),
                              ((1 / 2, 1 / 2), 4)]\<rparr>) ''seismic'' = Inl TypeError \<and>
   plot ((init (0::nat) 1 :: (nat, real, real) AshlockFingerprint)
          \<lparr>self_coordinates := Some [(0, 0), (0, 1 / 4), (0, 1 / 2), (0, 3 / 4), (1 / 4, 0), (1 / 4, 1 / 4),
      (1 / 4, 1 / 2), (1 / 4, 3 / 4), (1 / 2, 0), (1 / 2, 1 / 4), (1 / 2, 1 / 2),
      (1 / 2, 3 / 4), (3 / 4, 0), (3 / 4, 1 / 4), (3 / 4, 1 / 2), (3 / 4, 3 / 4)],
           self_step := Some (1 / 4),
           self_data := Some (map (\<lambda>coordinate. (coordinate, 2))
             [(0, 0), (0, 1 / 4), (0, 1 / 2), (0, 3 / 4), (1 / 4, 0), (1 / 4, 1 / 4),
      (1 / 4, 1 / 2), (1 / 4, 3 / 4), (1 / 2, 0), (1 / 2, 1 / 4), (1 / 2, 1 / 2),
      (1 / 2, 3 / 4), (3 / 4, 0), (3 / 4, 1 / 4), (3 / 4, 1 / 2), (3 / 4, 3 / 4)])\<rparr>) ''seismic'' = Inl TypeError"
  by (simp add: plot_def np_reshape_square_def dict_getitem_def)

section \<open>Properties of the orchestrator\<close>

lemma create_coordinates_row_major:
  "np_arange 0 1 step = Inr js \<Longrightarrow>
   create_coordinates np_arange step = Inr (concat (map (\<lambda>j. map (\<lambda>k. (j, k)) js) js)) \<and>
   (\<forall>coordinates. create_coordinates np_arange step = Inr coordinates \<longrightarrow>
      length coordinates = length js * length js)"
  by (simp add: create_coordinates_def length_concat comp_def sum_list_triv)

text \<open>
  C8. For every step, \<open>construct_tournament_elements\<close> raises exactly when the coordinate
  generator raises, and otherwise returns the roster that starts with the instance of the
  strategy and its dual and continues with one probe per coordinate, in the order of the
  coordinates. The roster has two more elements than there are coordinates, index 0 holds
  the strategy, index 1 the dual, and the probe of coordinate \<open>i\<close> is at index \<open>i + 2\<close>.
\<close>

theorem construct_tournament_elements_roster:
  "(\<forall>e. create_coordinates np_arange step = Inl e \<longrightarrow>
       construct_tournament_elements np_arange self step = Inl e) \<and>
   (\<forall>coordinates. create_coordinates np_arange step = Inr coordinates \<longrightarrow>
      (\<exists>self1 edges roster.
         construct_tournament_elements np_arange self step = Inr (self1, edges, roster) \<and>
         self_coordinates self1 = Some coordinates \<and>
         edges = create_edges coordinates \<and>
         roster = Instance (self_strategy self) # DualTransformer (self_strategy self) #
                    map (\<lambda>coordinate. create_jossann coordinate (self_probe self)) coordinates \<and>
         length roster = length coordinates + 2 \<and>
         roster ! 0 = Instance (self_strategy self) \<and>
         roster ! 1 = DualTransformer (self_strategy self) \<and>
         (\<forall>i < length coordinates.
            roster ! (i + 2) = create_jossann (coordinates ! i) (self_probe self))))"
  by (simp add: construct_tournament_elements_def create_probes_def Let_def)

theorem construct_tournament_elements_roster_witness:
  "\<exists>self1. construct_tournament_elements (\<lambda>start stop step. Inr [0, 1 / 2])
              (init (0::nat) 1 :: (nat, real, real) AshlockFingerprint) (1 / 2) =
      Inr (self1, [(0, 2), (0, 3), (0, 4), (0, 5)],
           [Instance 0, DualTransformer 0,
            JossAnnTransformer (0, 0) 1, JossAnnTransformer (0, 1 / 2) 1,
            JossAnnTransformer (1 / 2, 0) 1, JossAnnTransformer (1 / 2, 1 / 2) 1])"
proof -
  let ?arange = "(\<lambda>start stop step. Inr [0, 1 / 2]) :: real \<Rightarrow> real \<Rightarrow> real \<Rightarrow> error + real list"
  let ?self = "init (0::nat) 1 :: (nat, real, real) AshlockFingerprint"
  let ?cs = "[(0, 0), (0, 1 / 2), (1 / 2, 0), (1 / 2, 1 / 2)] :: Point list"
  have c: "create_coordinates ?arange (1 / 2) = Inr ?cs"
    by (simp add: create_coordinates_def)
  from construct_tournament_elements_roster [of ?arange "1 / 2" ?self] c
  obtain self1 edges roster
    where r: "construct_tournament_elements ?arange ?self (1 / 2) = Inr (self1, edges, roster)"
      and e: "edges = create_edges ?cs"
      and p: "roster = Instance (self_strategy ?self) # DualTransformer (self_strategy ?self) #
                map (\<lambda>coordinate. create_jossann coordinate (self_probe ?self)) ?cs"
    by blast
  from e have "edges = [(0, 2), (0, 3), (0, 4), (0, 5)]"
    by (simp add: create_edges_def)
  moreover from p have "roster = [Instance 0, DualTransformer 0,
            JossAnnTransformer (0, 0) 1, JossAnnTransformer (0, 1 / 2) 1,
            JossAnnTransformer (1 / 2, 0) 1, JossAnnTransformer (1 / 2, 1 / 2) 1]"
    by (simp add: init_def)
  ultimately show ?thesis
    using r by blast
qed




lemma fingerprint_constructor_raises:
  assumes "output_target host filename = (opened, target)"
    and "construct_tournament_elements (host_np_arange host) self step =
           Inr (self1, edges, tourn_players)"
    and "SpatialTournament_init tourn_players turns repetitions edges = Inl e"
  shows "fingerprint host self turns repetitions step processes filename = (opened, Inl e)"
  using assms by (simp add: fingerprint_def)










text \<open>
  At the step 1/2 no coordinate sums to more than 1, the dual is in no edge, and the
  constructor raises before the engine plays: the trace is the creation alone.
\<close>

lemma half_nodes:
  "sort (remdups (nodes [(0, 2), (0, 3), (0, 4), (0, 5)])) \<noteq> [0..<6]"
  by code_simp

lemma fingerprint_half_step:
  "fingerprint
     \<lparr>host_on_windows = False, host_temporary_file_name = ''tmp'',
      host_np_arange = (\<lambda>start stop step. Inr [0, 1 / 2]),
      host_np_mean = (\<lambda>xs. sum_list xs / real (length xs)),
      host_compute_final_score_per_turn = (\<lambda>r. r),
      host_play_in_memory = (\<lambda>tourn processes. Inl EngineError),
      host_play_to_file = (\<lambda>tourn name processes. Inr ()),
      host_read_interactions_from_file = (\<lambda>name. Inr (\<lambda>edge. Some [3, 1]))\<rparr>
     (init (0::nat) 1 :: (nat, real, real) AshlockFingerprint) 10 2 (1 / 2) None None =
   ([Create_temporary_file ''tmp''], Inl ValueError)"
proof -
  let ?host = "\<lparr>host_on_windows = False, host_temporary_file_name = ''tmp'',
      host_np_arange = (\<lambda>start stop step. Inr [0, 1 / 2]),
      host_np_mean = (\<lambda>xs. sum_list xs / real (length xs)),
      host_compute_final_score_per_turn = (\<lambda>r. r),
      host_play_in_memory = (\<lambda>tourn processes. Inl EngineError),
      host_play_to_file = (\<lambda>tourn name processes. Inr ()),
      host_read_interactions_from_file = (\<lambda>name. Inr (\<lambda>edge. Some [3, 1]))\<rparr>
    :: (nat, real, real, real) host"
  let ?self = "init (0::nat) 1 :: (nat, real, real) AshlockFingerprint"
  let ?cs = "[(0, 0), (0, 1 / 2), (1 / 2, 0), (1 / 2, 1 / 2)] :: Point list"
  let ?edges = "[(0, 2), (0, 3), (0, 4), (0, 5)] :: edge list"
  let ?players = "[Instance (self_strategy ?self), DualTransformer (self_strategy ?self)] @
      create_probes (self_probe ?self) ?cs"
  have target: "output_target ?host None = ([Create_temporary_file ''tmp''], Some ''tmp'')"
    by (simp add: output_target_def)
  have "create_edges ?cs = ?edges"
    by (simp add: create_edges_def)
  then have elements: "construct_tournament_elements (host_np_arange ?host) ?self (1 / 2) =
      Inr (?self\<lparr>self_coordinates := Some ?cs\<rparr>, ?edges, ?players)"
    by (simp add: construct_tournament_elements_def create_coordinates_def Let_def)
  have "length ?players = 6"
    by (simp add: create_probes_def)
  then have tourn: "SpatialTournament_init ?players 10 2 ?edges = Inl ValueError"
    unfolding SpatialTournament_init_def Let_def using half_nodes by simp
  from fingerprint_constructor_raises [OF target elements tourn]
  show ?thesis .
qed

end
